theory Spec2Isabelle
  imports Complex_Main "HOL-Library.Product_Lexorder" "HOL-Library.Option_ord"
    "HOL-Library.Char_ord" "HOL-Library.List_Lexorder"
begin

section \<open>Vehicle Traffic API: the query handlers of \<^verbatim>\<open>backend/main.py\<close>\<close>

text \<open>
  The handlers read one table of detection records and answer with lists of records,
  aggregate buckets or a summary. The embedding keeps the handlers' structure: every
  \<^verbatim>\<open>try\<close>/\<^verbatim>\<open>except\<close> is a case distinction on a sum type whose left injection is the
  raised exception, the clocks (\<^verbatim>\<open>datetime.utcnow()\<close> and the database's \<^verbatim>\<open>NOW()\<close>) and
  the library parser \<^verbatim>\<open>datetime.fromisoformat\<close> are arguments, and each SQL statement is a
  function on the list of rows of the table it names.
\<close>

subsection \<open>Exceptions\<close>

datatype exn =
    ValueError string
  | OverflowError string
  | ProgrammingError string
  | HTTPException (status_code: int) (detail: string)

subsection \<open>Naive datetimes\<close>

text \<open>
  A \<^verbatim>\<open>datetime\<close> without time zone, field by field. Python's \<^verbatim>\<open>replace\<close> is record update.
  Offsets from UTC are not modelled: the table's column is a timestamp without time zone.
\<close>

record datetime =
  year :: nat
  month :: nat
  day :: nat
  hour :: nat
  minute :: nat
  second :: nat
  microsecond :: nat

definition dt_key :: "datetime \<Rightarrow> nat \<times> nat \<times> nat \<times> nat \<times> nat \<times> nat \<times> nat" where
  "dt_key d = (year d, month d, day d, hour d, minute d, second d, microsecond d)"

definition is_leap :: "nat \<Rightarrow> bool" where
  "is_leap y = (if y mod 400 = 0 then True else if y mod 100 = 0 then False else y mod 4 = 0)"

definition days_in_month :: "nat \<Rightarrow> nat \<Rightarrow> nat" where
  "days_in_month y m =
     (if m = 2 then (if is_leap y then 29 else 28)
      else if m = 4 \<or> m = 6 \<or> m = 9 \<or> m = 11 then 30 else 31)"

definition valid_datetime :: "datetime \<Rightarrow> bool" where
  "valid_datetime d =
     (1 \<le> year d \<and> year d \<le> 9999 \<and> 1 \<le> month d \<and> month d \<le> 12 \<and>
      1 \<le> day d \<and> day d \<le> days_in_month (year d) (month d) \<and>
      hour d < 24 \<and> minute d < 60 \<and> second d < 60 \<and> microsecond d < 1000000)"

text \<open>
  \<^verbatim>\<open>timedelta(days=.., hours=.., minutes=..)\<close>, normalised as Python does to days and
  seconds below one day. Only non-negative durations occur in the handlers.
\<close>

record timedelta =
  days :: nat
  seconds :: nat

definition timedelta_of :: "nat \<Rightarrow> nat \<Rightarrow> nat \<Rightarrow> timedelta" where
  "timedelta_of d h m =
     \<lparr>days = d + (h * 3600 + m * 60) div 86400, seconds = (h * 3600 + m * 60) mod 86400\<rparr>"

text \<open>Stepping a calendar date back by \<open>n\<close> days; before 0001-01-01 Python raises OverflowError.\<close>

fun prev_days :: "nat \<Rightarrow> nat \<times> nat \<times> nat \<Rightarrow> exn + nat \<times> nat \<times> nat" where
  "prev_days 0 ymd = Inr ymd"
| "prev_days (Suc n) (y, m, d) =
     (if 1 < d then prev_days n (y, m, d - 1)
      else if 1 < m then prev_days n (y, m - 1, days_in_month y (m - 1))
      else if 1 < y then prev_days n (y - 1, 12, 31)
      else Inl (OverflowError ''date value out of range''))"

text \<open>\<^verbatim>\<open>dt - td\<close> for a datetime and a non-negative timedelta.\<close>

definition dt_sub :: "datetime \<Rightarrow> timedelta \<Rightarrow> exn + datetime" where
  "dt_sub dt td =
     (let sod = hour dt * 3600 + minute dt * 60 + second dt;
          borrow = (if seconds td \<le> sod then 0 else 1);
          sod' = (if seconds td \<le> sod then sod - seconds td else sod + 86400 - seconds td)
      in case prev_days (days td + borrow) (year dt, month dt, day dt) of
           Inl e \<Rightarrow> Inl e
         | Inr (y, m, d) \<Rightarrow>
             Inr \<lparr>year = y, month = m, day = d, hour = sod' div 3600,
                  minute = (sod' div 60) mod 60, second = sod' mod 60,
                  microsecond = microsecond dt\<rparr>)"

subsection \<open>Formatting and parsing\<close>

definition digit_char :: "nat \<Rightarrow> char" where
  "digit_char n = char_of (48 + n mod 10)"

definition pad2 :: "nat \<Rightarrow> string" where
  "pad2 n = [digit_char (n div 10), digit_char n]"

definition pad4 :: "nat \<Rightarrow> string" where
  "pad4 n = [digit_char (n div 1000), digit_char (n div 100), digit_char (n div 10), digit_char n]"

text \<open>\<^verbatim>\<open>d.date().isoformat()\<close> and \<^verbatim>\<open>d.strftime('%H:%M')\<close>.\<close>

definition date_isoformat :: "datetime \<Rightarrow> string" where
  "date_isoformat d = pad4 (year d) @ ''-'' @ pad2 (month d) @ ''-'' @ pad2 (day d)"

definition strftime_HM :: "datetime \<Rightarrow> string" where
  "strftime_HM d = pad2 (hour d) @ '':'' @ pad2 (minute d)"


fun show_nat :: "nat \<Rightarrow> string" where
  "show_nat n = (if n < 10 then [digit_char n] else show_nat (n div 10) @ [digit_char n])"

declare show_nat.simps [simp del]

definition show_int :: "int \<Rightarrow> string" where
  "show_int i = (if i < 0 then ''-'' else []) @ show_nat (nat \<bar>i\<bar>)"

text \<open>
  \<^verbatim>\<open>str(e)\<close>: the message of a built-in or driver exception, and for Starlette's
  HTTPException the status code, a colon and the detail (as the releases that define
  \<^verbatim>\<open>__str__\<close> for it print it). Only the details of the 500 answers depend on it.
\<close>

fun exn_str :: "exn \<Rightarrow> string" where
  "exn_str (ValueError m) = m"
| "exn_str (OverflowError m) = m"
| "exn_str (ProgrammingError m) = m"
| "exn_str (HTTPException c d) = show_int c @ '': '' @ d"

definition digit_val :: "char \<Rightarrow> nat option" where
  "digit_val c =
     (let n = (of_char c :: nat) in if 48 \<le> n \<and> n \<le> 57 then Some (n - 48) else None)"

fun digits_val :: "nat \<Rightarrow> string \<Rightarrow> nat option" where
  "digits_val acc [] = Some acc"
| "digits_val acc (c # cs) =
     (case digit_val c of None \<Rightarrow> None | Some v \<Rightarrow> digits_val (acc * 10 + v) cs)"

definition fixed_digits :: "nat \<Rightarrow> string \<Rightarrow> nat option" where
  "fixed_digits n s = (if length s = n then digits_val 0 s else None)"

text \<open>
  The time part \<^verbatim>\<open>HH[:MM[:SS[.fff[fff]]]]\<close> as hour, minute, second, microsecond.
\<close>

definition parse_isoformat_time :: "string \<Rightarrow> (nat \<times> nat \<times> nat \<times> nat) option" where
  "parse_isoformat_time s =
     (case fixed_digits 2 (take 2 s) of None \<Rightarrow> None
      | Some h \<Rightarrow>
        if length s = 2 then Some (h, 0, 0, 0)
        else if take 1 (drop 2 s) = '':'' then
          (case fixed_digits 2 (take 2 (drop 3 s)) of None \<Rightarrow> None
           | Some mi \<Rightarrow>
             if length s = 5 then Some (h, mi, 0, 0)
             else if take 1 (drop 5 s) = '':'' then
               (case fixed_digits 2 (take 2 (drop 6 s)) of None \<Rightarrow> None
                | Some sec \<Rightarrow>
                  if length s = 8 then Some (h, mi, sec, 0)
                  else if take 1 (drop 8 s) = ''.'' then
                    (if length s = 12 then
                       (case fixed_digits 3 (drop 9 s) of None \<Rightarrow> None
                        | Some ms \<Rightarrow> Some (h, mi, sec, ms * 1000))
                     else if length s = 15 then
                       (case fixed_digits 6 (drop 9 s) of None \<Rightarrow> None
                        | Some us \<Rightarrow> Some (h, mi, sec, us))
                     else None)
                  else None)
             else None)
        else None)"

text \<open>
  An instance of the parser argument, for the strings without an offset from UTC:
  \<^verbatim>\<open>datetime.fromisoformat\<close> on \<^verbatim>\<open>YYYY-MM-DD[*HH[:MM[:SS[.fff[fff]]]]]\<close> (any one
  character as separator), the fields checked against the calendar as the \<^verbatim>\<open>datetime\<close>
  constructor does, and a ValueError where the date part is not \<^verbatim>\<open>YYYY-MM-DD\<close>. A string
  that ends in an offset or in \<^verbatim>\<open>Z\<close> gives a datetime with a time zone in the library; such
  values have no counterpart among the naive datetimes, and the instance is not used on
  such strings.
\<close>

definition fromisoformat :: "string \<Rightarrow> exn + datetime" where
  "fromisoformat s =
     (let bad = Inl (ValueError (''Invalid isoformat string: '' @ s)) in
      case (fixed_digits 4 (take 4 s), fixed_digits 2 (take 2 (drop 5 s)),
            fixed_digits 2 (take 2 (drop 8 s))) of
        (Some y, Some m, Some d) \<Rightarrow>
          if take 1 (drop 4 s) = ''-'' \<and> take 1 (drop 7 s) = ''-'' then
            (case (if length s = 10 then Some (0, 0, 0, 0) else parse_isoformat_time (drop 11 s)) of
               None \<Rightarrow> bad
             | Some (h, mi, sec, us) \<Rightarrow>
                 let dt = \<lparr>year = y, month = m, day = d, hour = h, minute = mi, second = sec,
                           microsecond = us\<rparr>
                 in if valid_datetime dt then Inr dt else bad)
          else bad
      | _ \<Rightarrow> bad)"

subsection \<open>The table and the response schema\<close>

text \<open>
  \<^verbatim>\<open>VehicleCountResponse\<close> is the schema of the list endpoints; \<^verbatim>\<open>VehicleCount\<close> is the mapped
  table. The count columns are declared without a NOT NULL constraint, so a stored count
  is an optional integer; the handlers and the SQL aggregates treat the missing value.
\<close>

record VehicleCountResponse =
  timestamp :: datetime
  camera_id :: string
  car :: int
  bike :: int
  truck :: int
  bus :: int
  auto :: int
  total' :: int

record VehicleCount =
  id' :: int
  timestamp :: datetime
  camera_id :: string
  auto :: "int option"
  bus :: "int option"
  car :: "int option"
  bike :: "int option"
  truck :: "int option"
  total' :: "int option"

definition VehicleCount_tablename :: string where
  "VehicleCount_tablename = ''jaloli_thresholds_detections_counts''"

text \<open>
  The database: its tables by name and the value of \<^verbatim>\<open>NOW()\<close> (the wall clock of the
  session, from which \<^verbatim>\<open>CURRENT_DATE\<close> follows). A statement on a table that does not exist
  raises the driver's error.
\<close>

record database =
  tables :: "string \<rightharpoonup> VehicleCount list"
  sql_now :: datetime

definition from_table :: "database \<Rightarrow> string \<Rightarrow> exn + VehicleCount list" where
  "from_table db name =
     (case tables db name of
        None \<Rightarrow> Inl (ProgrammingError (''relation does not exist: '' @ name))
      | Some rows \<Rightarrow> Inr rows)"

subsection \<open>SQL expressions and clauses\<close>

definition coalesce :: "'a option \<Rightarrow> 'a \<Rightarrow> 'a" where
  "coalesce v d = (case v of None \<Rightarrow> d | Some x \<Rightarrow> x)"

text \<open>\<^verbatim>\<open>SUM\<close> and \<^verbatim>\<open>AVG\<close> skip missing values and are missing themselves when nothing is left.\<close>

definition sql_sum :: "int option list \<Rightarrow> int option" where
  "sql_sum vs = (case List.map_filter (\<lambda>v. v) vs of [] \<Rightarrow> None | x # xs \<Rightarrow> Some (sum_list (x # xs)))"

definition sql_avg :: "int option list \<Rightarrow> rat option" where
  "sql_avg vs =
     (case List.map_filter (\<lambda>v. v) vs of
        [] \<Rightarrow> None
      | x # xs \<Rightarrow> Some (of_int (sum_list (x # xs)) / of_nat (length (x # xs))))"

definition dt_min :: "datetime \<Rightarrow> datetime \<Rightarrow> datetime" where
  "dt_min a b = (if dt_key a \<le> dt_key b then a else b)"

definition sql_min :: "datetime list \<Rightarrow> datetime option" where
  "sql_min ts = (case ts of [] \<Rightarrow> None | t # rest \<Rightarrow> Some (fold dt_min rest t))"

definition date_trunc_hour :: "datetime \<Rightarrow> datetime" where
  "date_trunc_hour t = t\<lparr>minute := 0, second := 0, microsecond := 0\<rparr>"

definition date_trunc_day :: "datetime \<Rightarrow> datetime" where
  "date_trunc_day t = t\<lparr>hour := 0, minute := 0, second := 0, microsecond := 0\<rparr>"

text \<open>
  \<^verbatim>\<open>GROUP BY\<close>: one group per distinct key, holding the rows of that key. \<^verbatim>\<open>ORDER BY\<close> is a
  stable sort on the key; the order the database gives to rows of equal key is not fixed
  by SQL, and the model takes one such order.
\<close>

definition group_by :: "('r \<Rightarrow> 'k) \<Rightarrow> 'r list \<Rightarrow> ('k \<times> 'r list) list" where
  "group_by key rows = map (\<lambda>k. (k, filter (\<lambda>r. key r = k) rows)) (remdups (map key rows))"

definition order_by :: "('r \<Rightarrow> 'k::linorder) \<Rightarrow> 'r list \<Rightarrow> 'r list" where
  "order_by key rows = sort_key key rows"

definition order_by_desc :: "('r \<Rightarrow> 'k::linorder) \<Rightarrow> 'r list \<Rightarrow> 'r list" where
  "order_by_desc key rows = rev (sort_key key rows)"

text \<open>
  An optional string parameter tested by \<^verbatim>\<open>if camera_id:\<close>: absent and empty are both
  false.
\<close>

fun provided :: "string option \<Rightarrow> string option" where
  "provided None = None"
| "provided (Some s) = (if s = [] then None else Some s)"

text \<open>The camera condition, added to a statement only when the parameter is provided.\<close>

definition camera_clause :: "string option \<Rightarrow> VehicleCount \<Rightarrow> bool" where
  "camera_clause camera r = (case provided camera of None \<Rightarrow> True | Some c \<Rightarrow> camera_id r = c)"

text \<open>
  A grouped row as a response item: \<^verbatim>\<open>int(row.car) if row.car is not None else 0\<close>, for each
  of the six sums.
\<close>

definition response_of :: "(datetime \<times> string) \<times> VehicleCount list \<Rightarrow> VehicleCountResponse" where
  "response_of g =
     \<lparr>VehicleCountResponse.timestamp = fst (fst g),
      VehicleCountResponse.camera_id = snd (fst g),
      VehicleCountResponse.car = coalesce (sql_sum (map car (snd g))) 0,
      VehicleCountResponse.bike = coalesce (sql_sum (map bike (snd g))) 0,
      VehicleCountResponse.truck = coalesce (sql_sum (map truck (snd g))) 0,
      VehicleCountResponse.bus = coalesce (sql_sum (map bus (snd g))) 0,
      VehicleCountResponse.auto = coalesce (sql_sum (map auto (snd g))) 0,
      VehicleCountResponse.total' = coalesce (sql_sum (map total' (snd g))) 0\<rparr>"

subsection \<open>\<^verbatim>\<open>GET /api/vehicle-counts/secondly\<close>\<close>

text \<open>
  The handler builds its two statements with the query builder, so a statement is data:
  the conditions added by \<^verbatim>\<open>where\<close>, the ordering and the limit. The handler's value comes
  with the list of the statements it executed, in order.
\<close>

datatype criterion = Timestamp_ge datetime | Camera_eq string

record select_stmt =
  whereclause :: "criterion list"
  order_by_timestamp_desc :: bool
  limit :: "nat option"

definition select_VehicleCount :: select_stmt where
  "select_VehicleCount = \<lparr>whereclause = [], order_by_timestamp_desc = False, limit = None\<rparr>"

definition where' :: "select_stmt \<Rightarrow> criterion \<Rightarrow> select_stmt" where
  "where' q c = q\<lparr>whereclause := whereclause q @ [c]\<rparr>"

fun holds :: "criterion \<Rightarrow> VehicleCount \<Rightarrow> bool" where
  "holds (Timestamp_ge t) r = (dt_key t \<le> dt_key (timestamp r))"
| "holds (Camera_eq c) r = (camera_id r = c)"

definition execute_select :: "database \<Rightarrow> select_stmt \<Rightarrow> exn + VehicleCount list" where
  "execute_select db q =
     (case from_table db VehicleCount_tablename of
        Inl e \<Rightarrow> Inl e
      | Inr rows \<Rightarrow>
          let matching = filter (\<lambda>r. list_all (\<lambda>c. holds c r) (whereclause q)) rows;
              ordered = (if order_by_timestamp_desc q
                         then order_by_desc (\<lambda>r. dt_key (timestamp r)) matching else matching)
          in Inr (case limit q of None \<Rightarrow> ordered | Some n \<Rightarrow> take n ordered))"

definition secondly_query :: "datetime \<Rightarrow> string option \<Rightarrow> select_stmt" where
  "secondly_query one_minute_ago camera =
     (let query = where' select_VehicleCount (Timestamp_ge one_minute_ago);
          query = (case provided camera of None \<Rightarrow> query | Some c \<Rightarrow> where' query (Camera_eq c))
      in query\<lparr>order_by_timestamp_desc := True, limit := Some 60\<rparr>)"

definition secondly_fallback_query :: "string option \<Rightarrow> select_stmt" where
  "secondly_fallback_query camera =
     (let fallback_query = select_VehicleCount;
          fallback_query = (case provided camera of None \<Rightarrow> fallback_query
                            | Some c \<Rightarrow> where' fallback_query (Camera_eq c))
      in fallback_query\<lparr>order_by_timestamp_desc := True, limit := Some 60\<rparr>)"

definition secondly_body ::
  "datetime \<Rightarrow> database \<Rightarrow> string option \<Rightarrow> (exn + VehicleCount list) \<times> select_stmt list" where
  "secondly_body utcnow db camera =
     (case dt_sub utcnow (timedelta_of 0 0 1) of
        Inl e \<Rightarrow> (Inl e, [])
      | Inr one_minute_ago \<Rightarrow>
          let query = secondly_query one_minute_ago camera in
          (case execute_select db query of
             Inl e \<Rightarrow> (Inl e, [query])
           | Inr results \<Rightarrow>
               if length results = 0 then
                 let fallback_query = secondly_fallback_query camera in
                 (case execute_select db fallback_query of
                    Inl e \<Rightarrow> (Inl e, [query, fallback_query])
                  | Inr results \<Rightarrow> (Inr results, [query, fallback_query]))
               else (Inr results, [query])))"

definition get_secondly_data ::
  "datetime \<Rightarrow> database \<Rightarrow> string option \<Rightarrow> (exn + VehicleCount list) \<times> select_stmt list" where
  "get_secondly_data utcnow db camera =
     (case secondly_body utcnow db camera of
        (Inl e, executed) \<Rightarrow> (Inl (HTTPException 500 (''Database error: '' @ exn_str e)), executed)
      | (Inr results, executed) \<Rightarrow> (Inr results, executed))"

subsection \<open>\<^verbatim>\<open>GET /api/vehicle-counts/hourly\<close>\<close>

text \<open>\<^verbatim>\<open>SELECT MIN(timestamp) ... WHERE timestamp >= CURRENT_DATE [AND camera_id = :camera_id]\<close>\<close>

definition hourly_min_time :: "database \<Rightarrow> string option \<Rightarrow> exn + datetime option" where
  "hourly_min_time db camera =
     (case from_table db VehicleCount_tablename of
        Inl e \<Rightarrow> Inl e
      | Inr rows \<Rightarrow>
          Inr (sql_min (map timestamp
            (filter (\<lambda>r. dt_key (date_trunc_day (sql_now db)) \<le> dt_key (timestamp r) \<and>
                          camera_clause camera r) rows))))"

text \<open>
  The grouped statement. Its text compares the timestamp with \<^verbatim>\<open>:start_time\<close> and with
  \<^verbatim>\<open>DATE_TRUNC('day', NOW()) + INTERVAL '21 hours'\<close>; \<^verbatim>\<open>:end_time\<close> is passed among the
  parameters and occurs nowhere in the text.
\<close>

definition hourly_query ::
  "database \<Rightarrow> datetime \<Rightarrow> datetime \<Rightarrow> string option \<Rightarrow> exn + VehicleCountResponse list" where
  "hourly_query db start_time end_time camera =
     (case from_table db VehicleCount_tablename of
        Inl e \<Rightarrow> Inl e
      | Inr rows \<Rightarrow>
          Inr (map response_of
            (order_by (\<lambda>g. dt_key (fst (fst g)))
              (group_by (\<lambda>r. (date_trunc_hour (timestamp r), camera_id r))
                (filter (\<lambda>r. dt_key start_time \<le> dt_key (timestamp r) \<and>
                              dt_key (timestamp r) \<le> dt_key ((date_trunc_day (sql_now db))\<lparr>hour := 21\<rparr>) \<and>
                              camera_clause camera r) rows)))))"

definition hourly_body ::
  "datetime \<Rightarrow> database \<Rightarrow> string option \<Rightarrow> exn + VehicleCountResponse list" where
  "hourly_body utcnow db camera =
     (case hourly_min_time db camera of
        Inl e \<Rightarrow> Inl e
      | Inr None \<Rightarrow> Inr []
      | Inr (Some min_time_result) \<Rightarrow>
          let start_time = min_time_result;
              end_time = utcnow\<lparr>minute := 0, second := 0, microsecond := 0\<rparr>
          in hourly_query db start_time end_time camera)"

definition get_hourly_data ::
  "datetime \<Rightarrow> database \<Rightarrow> string option \<Rightarrow> exn + VehicleCountResponse list" where
  "get_hourly_data utcnow db camera =
     (case hourly_body utcnow db camera of
        Inl e \<Rightarrow> Inl (HTTPException 500 (''Database error: '' @ exn_str e))
      | Inr formatted_results \<Rightarrow> Inr formatted_results)"

subsection \<open>\<^verbatim>\<open>GET /api/vehicle-counts/daily\<close>\<close>

text \<open>
  The date parameters (the inner \<^verbatim>\<open>try\<close> block, before its \<^verbatim>\<open>except ValueError\<close>). \<open>parse\<close>
  stands for \<^verbatim>\<open>datetime.fromisoformat\<close>.
\<close>

definition daily_dates ::
  "(string \<Rightarrow> exn + datetime) \<Rightarrow> datetime \<Rightarrow> string option \<Rightarrow> string option \<Rightarrow>
   exn + datetime \<times> datetime" where
  "daily_dates parse utcnow start_date end_date =
     (case (case provided start_date of
              Some s \<Rightarrow> parse s
            | None \<Rightarrow> dt_sub utcnow (timedelta_of 1 0 0)) of
        Inl e \<Rightarrow> Inl e
      | Inr start_datetime0 \<Rightarrow>
          let start_datetime = start_datetime0\<lparr>hour := 0, minute := 0, second := 0, microsecond := 0\<rparr>
          in (case (case provided end_date of
                      Some s \<Rightarrow> parse s
                    | None \<Rightarrow> Inr start_datetime) of
                Inl e \<Rightarrow> Inl e
              | Inr end_datetime \<Rightarrow>
                  Inr (start_datetime,
                       end_datetime\<lparr>hour := 23, minute := 59, second := 59, microsecond := 999999\<rparr>)))"

text \<open>\<^verbatim>\<open>if interval_minutes < 1 or interval_minutes > 60: interval_minutes = 10\<close>\<close>

definition validate_interval :: "int \<Rightarrow> int" where
  "validate_interval interval_minutes =
     (if interval_minutes < 1 \<or> interval_minutes > 60 then 10 else interval_minutes)"

text \<open>
  \<^verbatim>\<open>date_trunc('hour', timestamp) + FLOOR(EXTRACT(minute FROM timestamp) / :interval) *
  :interval * interval '1 minute'\<close>. The floor of the quotient is \<open>div\<close> on the integers. For
  an interval of at least one the minutes added are at most the timestamp's own minute, so
  the sum is the truncated hour with its minute field set.
\<close>

definition time_bucket :: "int \<Rightarrow> datetime \<Rightarrow> datetime" where
  "time_bucket interval t =
     (date_trunc_hour t)\<lparr>minute := nat (int (minute t) div interval * interval)\<rparr>"

definition daily_query ::
  "database \<Rightarrow> int \<Rightarrow> datetime \<Rightarrow> datetime \<Rightarrow> string option \<Rightarrow> exn + VehicleCountResponse list" where
  "daily_query db interval start_time end_time camera =
     (case from_table db VehicleCount_tablename of
        Inl e \<Rightarrow> Inl e
      | Inr rows \<Rightarrow>
          Inr (map response_of
            (order_by (\<lambda>g. dt_key (fst (fst g)))
              (group_by (\<lambda>r. (time_bucket interval (timestamp r), camera_id r))
                (filter (\<lambda>r. dt_key start_time \<le> dt_key (timestamp r) \<and>
                              dt_key (timestamp r) \<le> dt_key end_time \<and>
                              camera_clause camera r) rows)))))"

definition daily_body ::
  "(string \<Rightarrow> exn + datetime) \<Rightarrow> datetime \<Rightarrow> database \<Rightarrow> int \<Rightarrow> string option \<Rightarrow>
   string option \<Rightarrow> string option \<Rightarrow> exn + VehicleCountResponse list" where
  "daily_body parse utcnow db interval_minutes start_date end_date camera =
     (case daily_dates parse utcnow start_date end_date of
        Inl (ValueError m) \<Rightarrow> Inl (HTTPException 400 ''Invalid date format. Use YYYY-MM-DD'')
      | Inl e \<Rightarrow> Inl e
      | Inr (start_datetime, end_datetime) \<Rightarrow>
          (case daily_query db (validate_interval interval_minutes) start_datetime end_datetime camera of
             Inl e \<Rightarrow> Inl (HTTPException 500 ''Database query failed'')
           | Inr formatted_results \<Rightarrow> Inr formatted_results))"

text \<open>The outer \<^verbatim>\<open>except Exception\<close> of the handler, around all of the above.\<close>

definition get_daily_data ::
  "(string \<Rightarrow> exn + datetime) \<Rightarrow> datetime \<Rightarrow> database \<Rightarrow> int \<Rightarrow> string option \<Rightarrow>
   string option \<Rightarrow> string option \<Rightarrow> exn + VehicleCountResponse list" where
  "get_daily_data parse utcnow db interval_minutes start_date end_date camera =
     (case daily_body parse utcnow db interval_minutes start_date end_date camera of
        Inl outer_e \<Rightarrow> Inl (HTTPException 500 ''Processing error'')
      | Inr formatted_results \<Rightarrow> Inr formatted_results)"

subsection \<open>\<^verbatim>\<open>GET /api/vehicle-counts/last-hour\<close>\<close>

record hourly_totals =
  cars :: int
  bikes :: int
  trucks :: int
  buses :: int
  autos :: int
  total :: int

text \<open>\<^verbatim>\<open>total_counts.total_cars or 0\<close>: a missing sum, and a sum of zero, give 0.\<close>

definition or_zero :: "int option \<Rightarrow> int" where
  "or_zero v = (case v of None \<Rightarrow> 0 | Some x \<Rightarrow> x)"

definition last_hour_body :: "datetime \<Rightarrow> database \<Rightarrow> string option \<Rightarrow> exn + hourly_totals" where
  "last_hour_body utcnow db camera =
     (case dt_sub utcnow (timedelta_of 0 1 0) of
        Inl e \<Rightarrow> Inl e
      | Inr one_hour_ago \<Rightarrow>
          (case from_table db VehicleCount_tablename of
             Inl e \<Rightarrow> Inl e
           | Inr rows \<Rightarrow>
               let total_counts = filter (\<lambda>r. dt_key one_hour_ago \<le> dt_key (timestamp r) \<and>
                                               camera_clause camera r) rows
               in Inr \<lparr>hourly_totals.cars = or_zero (sql_sum (map car total_counts)),
                       hourly_totals.bikes = or_zero (sql_sum (map bike total_counts)),
                       hourly_totals.trucks = or_zero (sql_sum (map truck total_counts)),
                       hourly_totals.buses = or_zero (sql_sum (map bus total_counts)),
                       hourly_totals.autos = or_zero (sql_sum (map auto total_counts)),
                       hourly_totals.total = or_zero (sql_sum (map total' total_counts))\<rparr>))"

definition get_last_hour_summary :: "datetime \<Rightarrow> database \<Rightarrow> string option \<Rightarrow> exn + hourly_totals" where
  "get_last_hour_summary utcnow db camera =
     (case last_hour_body utcnow db camera of
        Inl e \<Rightarrow> Inl (HTTPException 500 (''Database error: '' @ exn_str e))
      | Inr r \<Rightarrow> Inr r)"

subsection \<open>\<^verbatim>\<open>GET /api/vehicle-counts/summary\<close>\<close>

record total_vehicles =
  cars :: int
  bikes :: int
  trucks :: int
  buses :: int
  autos :: int
  all' :: int

record summary =
  date :: string
  total_vehicles :: total_vehicles
  peak_hour :: "string option"
  peak_hour_count :: int
  record_count :: int

text \<open>
  \<^verbatim>\<open>round\<close> on the average that the driver returns as a Decimal: to the nearest integer,
  a tie to the even one. On the integer totals \<^verbatim>\<open>round\<close> changes nothing.
\<close>

definition py_round :: "rat \<Rightarrow> int" where
  "py_round x =
     (let f = \<lfloor>x\<rfloor>; d = x - of_int f
      in if d < 1 / 2 then f else if 1 / 2 < d then f + 1 else if even f then f else f + 1)"

text \<open>The day of the summary: \<^verbatim>\<open>today_start\<close> and \<^verbatim>\<open>today_end\<close>.\<close>

definition summary_dates ::
  "(string \<Rightarrow> exn + datetime) \<Rightarrow> datetime \<Rightarrow> string option \<Rightarrow> exn + datetime \<times> datetime" where
  "summary_dates parse utcnow start_date =
     (case (case provided start_date of
              Some s \<Rightarrow>
                (case parse s of
                   Inl (ValueError m) \<Rightarrow> Inl (HTTPException 400 ''Invalid date format. Use YYYY-MM-DD'')
                 | Inl e \<Rightarrow> Inl e
                 | Inr today_start \<Rightarrow>
                     Inr (today_start\<lparr>hour := 0, minute := 0, second := 0, microsecond := 0\<rparr>))
            | None \<Rightarrow> Inr (utcnow\<lparr>hour := 0, minute := 0, second := 0, microsecond := 0\<rparr>)) of
        Inl e \<Rightarrow> Inl e
      | Inr today_start \<Rightarrow>
          Inr (today_start,
               today_start\<lparr>hour := 23, minute := 59, second := 59, microsecond := 999999\<rparr>))"

text \<open>The rows both statements of the summary range over.\<close>

definition summary_where ::
  "datetime \<Rightarrow> datetime \<Rightarrow> string option \<Rightarrow> VehicleCount list \<Rightarrow> VehicleCount list" where
  "summary_where today_start today_end camera rows =
     filter (\<lambda>r. dt_key today_start \<le> dt_key (timestamp r) \<and>
                  dt_key (timestamp r) \<le> dt_key today_end \<and> camera_clause camera r) rows"

text \<open>
  The totals statement: six \<^verbatim>\<open>COALESCE(SUM(..), 0)\<close> and \<^verbatim>\<open>COUNT(id)\<close>, one row always.
\<close>

definition totals_query ::
  "database \<Rightarrow> datetime \<Rightarrow> datetime \<Rightarrow> string option \<Rightarrow> exn + total_vehicles \<times> int" where
  "totals_query db today_start today_end camera =
     (case from_table db VehicleCount_tablename of
        Inl e \<Rightarrow> Inl e
      | Inr rows \<Rightarrow>
          let m = summary_where today_start today_end camera rows
          in Inr (\<lparr>total_vehicles.cars = coalesce (sql_sum (map car m)) 0,
                   total_vehicles.bikes = coalesce (sql_sum (map bike m)) 0,
                   total_vehicles.trucks = coalesce (sql_sum (map truck m)) 0,
                   total_vehicles.buses = coalesce (sql_sum (map bus m)) 0,
                   total_vehicles.autos = coalesce (sql_sum (map auto m)) 0,
                   total_vehicles.all' = coalesce (sql_sum (map total' m)) 0\<rparr>,
                  int (length m)))"

text \<open>
  The key of \<^verbatim>\<open>ORDER BY hourly_avg DESC\<close>, to be sorted ascending: PostgreSQL puts a missing
  value before every value in descending order, and then the values from the highest down.
\<close>

definition desc_nulls_first :: "rat option \<Rightarrow> nat \<times> rat" where
  "desc_nulls_first v = (case v of None \<Rightarrow> (0, 0) | Some a \<Rightarrow> (1, - a))"

text \<open>
  The peak statement: per hour the average of \<^verbatim>\<open>total\<close>, in that order, one row kept;
  \<^verbatim>\<open>first()\<close> is that row or nothing.
\<close>

definition peak_hour_query ::
  "database \<Rightarrow> datetime \<Rightarrow> datetime \<Rightarrow> string option \<Rightarrow> exn + (datetime \<times> rat option) option" where
  "peak_hour_query db today_start today_end camera =
     (case from_table db VehicleCount_tablename of
        Inl e \<Rightarrow> Inl e
      | Inr rows \<Rightarrow>
          Inr (case take 1 (order_by (\<lambda>row. desc_nulls_first (snd row))
                  (map (\<lambda>g. (fst g, sql_avg (map total' (snd g))))
                    (group_by (\<lambda>r. date_trunc_hour (timestamp r))
                      (summary_where today_start today_end camera rows)))) of
                 [] \<Rightarrow> None
               | row # rest \<Rightarrow> Some row))"

definition summary_body ::
  "(string \<Rightarrow> exn + datetime) \<Rightarrow> datetime \<Rightarrow> database \<Rightarrow> string option \<Rightarrow> string option \<Rightarrow>
   exn + summary" where
  "summary_body parse utcnow db start_date camera =
     (case summary_dates parse utcnow start_date of
        Inl e \<Rightarrow> Inl e
      | Inr (today_start, today_end) \<Rightarrow>
          (case totals_query db today_start today_end camera of
             Inl e \<Rightarrow> Inl e
           | Inr (result, result_record_count) \<Rightarrow>
               (case peak_hour_query db today_start today_end camera of
                  Inl e \<Rightarrow> Inl e
                | Inr peak_hour_result \<Rightarrow>
                    Inr \<lparr>date = date_isoformat today_start,
                         total_vehicles = result,
                         peak_hour = (case peak_hour_result of
                                        None \<Rightarrow> None
                                      | Some row \<Rightarrow> Some (strftime_HM (fst row))),
                         peak_hour_count = (case peak_hour_result of
                                              None \<Rightarrow> 0
                                            | Some row \<Rightarrow>
                                                (case snd row of
                                                   None \<Rightarrow> 0
                                                 | Some hourly_avg \<Rightarrow>
                                                     if hourly_avg = 0 then 0 else py_round hourly_avg)),
                         record_count = result_record_count\<rparr>)))"

definition get_summary ::
  "(string \<Rightarrow> exn + datetime) \<Rightarrow> datetime \<Rightarrow> database \<Rightarrow> string option \<Rightarrow> string option \<Rightarrow>
   exn + summary" where
  "get_summary parse utcnow db start_date camera =
     (case summary_body parse utcnow db start_date camera of
        Inl e \<Rightarrow> Inl (HTTPException 500 (''Database error: '' @ exn_str e))
      | Inr r \<Rightarrow> Inr r)"

subsection \<open>\<^verbatim>\<open>GET /api/cameras\<close>\<close>

record cameras_response =
  cameras :: "string list"
  count :: int

text \<open>The table name as the statement of this handler spells it.\<close>

definition cameras_tablename :: string where
  "cameras_tablename = ''jaloli_thresholds-detections-counts''"

definition cameras_body :: "database \<Rightarrow> exn + cameras_response" where
  "cameras_body db =
     (case from_table db cameras_tablename of
        Inl e \<Rightarrow> Inl e
      | Inr rows \<Rightarrow>
          let camera_ids = sort (remdups (map camera_id rows))
          in Inr \<lparr>cameras = camera_ids, count = int (length camera_ids)\<rparr>)"

definition get_cameras :: "database \<Rightarrow> exn + cameras_response" where
  "get_cameras db =
     (case cameras_body db of
        Inl e \<Rightarrow> Inl (HTTPException 500 (''Database error: '' @ exn_str e))
      | Inr r \<Rightarrow> Inr r)"

subsection \<open>Example data\<close>

text \<open>
  One camera, two records on 2024-03-01 (at 10:15 and at 12:00), and three clock readings:
  10:30 on that day, 08:00 on the next day, and the database's own clock equal to the first.
\<close>

definition example_now :: datetime where
  "example_now =
     \<lparr>year = 2024, month = 3, day = 1, hour = 10, minute = 30, second = 0, microsecond = 0\<rparr>"

definition example_idle_now :: datetime where
  "example_idle_now =
     \<lparr>year = 2024, month = 3, day = 2, hour = 8, minute = 0, second = 0, microsecond = 0\<rparr>"

definition example_row :: "int \<Rightarrow> nat \<Rightarrow> nat \<Rightarrow> string \<Rightarrow> int \<Rightarrow> VehicleCount" where
  "example_row i h m c n =
     \<lparr>id' = i,
      timestamp = \<lparr>year = 2024, month = 3, day = 1, hour = h, minute = m, second = 0,
                   microsecond = 0\<rparr>,
      camera_id = c, auto = Some 0, bus = None, car = Some n, bike = Some 1, truck = Some 0,
      total' = Some (n + 1)\<rparr>"

definition example_db :: database where
  "example_db =
     \<lparr>tables = [VehicleCount_tablename \<mapsto>
                  [example_row 1 10 15 ''cam1'' 3, example_row 2 12 0 ''cam1'' 4]],
      sql_now = example_now\<rparr>"

definition example_empty_db :: database where
  "example_empty_db = \<lparr>tables = [VehicleCount_tablename \<mapsto> []], sql_now = example_now\<rparr>"

text \<open>
  Two records of one camera five minutes apart, at 10:07 and 10:12, on either side of the
  bucket boundary 10:10.
\<close>

definition example_unaligned_db :: database where
  "example_unaligned_db =
     \<lparr>tables = [VehicleCount_tablename \<mapsto>
                  [example_row 1 10 7 ''cam1'' 3, example_row 2 10 12 ''cam1'' 4]],
      sql_now = example_now\<rparr>"

text \<open>Three records of one camera inside the window 10:10 to 10:20 of 2024-03-01.\<close>

definition example_window_db :: database where
  "example_window_db =
     \<lparr>tables = [VehicleCount_tablename \<mapsto>
                  [example_row 1 10 12 ''cam1'' 3, example_row 2 10 19 ''cam1'' 4,
                   example_row 3 10 10 ''cam1'' 5]],
      sql_now = example_now\<rparr>"

section \<open>Properties of the handlers\<close>

subsection \<open>Shared facts\<close>

lemma camera_clause_empty: "camera_clause (Some []) = camera_clause None"
  by (simp add: fun_eq_iff camera_clause_def)

lemma secondly_query_empty: "secondly_query t (Some []) = secondly_query t None"
  by (simp add: secondly_query_def)

lemma secondly_fallback_query_empty:
  "secondly_fallback_query (Some []) = secondly_fallback_query None"
  by (simp add: secondly_fallback_query_def)

lemma show_int_400: "show_int 400 = ''400''"
  by code_simp

lemma fromisoformat_not_a_date:
  "fromisoformat ''not-a-date'' = Inl (ValueError ''Invalid isoformat string: not-a-date'')"
  by (simp add: fromisoformat_def fixed_digits_def digit_val_def)

lemma fromisoformat_date:
  "fromisoformat ''2024-03-01'' =
     Inr \<lparr>year = 2024, month = 3, day = 1, hour = 0, minute = 0, second = 0, microsecond = 0\<rparr>"
  by (simp add: fromisoformat_def fixed_digits_def digit_val_def valid_datetime_def
      days_in_month_def)


lemma daily_dates_example:
  "daily_dates fromisoformat example_now (Some ''2024-03-01'') None =
     Inr (\<lparr>year = 2024, month = 3, day = 1, hour = 0, minute = 0, second = 0, microsecond = 0\<rparr>,
          \<lparr>year = 2024, month = 3, day = 1, hour = 23, minute = 59, second = 59,
           microsecond = 999999\<rparr>)"
  by (simp add: daily_dates_def fromisoformat_date)

lemma daily_query_example:
  "daily_query example_db 10
     \<lparr>year = 2024, month = 3, day = 1, hour = 0, minute = 0, second = 0, microsecond = 0\<rparr>
     \<lparr>year = 2024, month = 3, day = 1, hour = 23, minute = 59, second = 59, microsecond = 999999\<rparr>
     None =
   Inr [\<lparr>VehicleCountResponse.timestamp =
          \<lparr>year = 2024, month = 3, day = 1, hour = 10, minute = 10, second = 0, microsecond = 0\<rparr>,
         camera_id = ''cam1'', car = 3, bike = 1, truck = 0, bus = 0, auto = 0, total' = 4\<rparr>,
        \<lparr>VehicleCountResponse.timestamp =
          \<lparr>year = 2024, month = 3, day = 1, hour = 12, minute = 0, second = 0, microsecond = 0\<rparr>,
         camera_id = ''cam1'', car = 4, bike = 1, truck = 0, bus = 0, auto = 0, total' = 5\<rparr>]"
  by (simp add: daily_query_def from_table_def example_db_def example_row_def camera_clause_def
      dt_key_def time_bucket_def date_trunc_hour_def group_by_def order_by_def response_of_def
      coalesce_def sql_sum_def)

lemma get_daily_data_example:
  "get_daily_data fromisoformat example_now example_db 10 (Some ''2024-03-01'') None None =
   Inr [\<lparr>VehicleCountResponse.timestamp =
          \<lparr>year = 2024, month = 3, day = 1, hour = 10, minute = 10, second = 0, microsecond = 0\<rparr>,
         camera_id = ''cam1'', car = 3, bike = 1, truck = 0, bus = 0, auto = 0, total' = 4\<rparr>,
        \<lparr>VehicleCountResponse.timestamp =
          \<lparr>year = 2024, month = 3, day = 1, hour = 12, minute = 0, second = 0, microsecond = 0\<rparr>,
         camera_id = ''cam1'', car = 4, bike = 1, truck = 0, bus = 0, auto = 0, total' = 5\<rparr>]"
  using daily_query_example
  by (simp add: get_daily_data_def daily_body_def daily_dates_example validate_interval_def)

subsection \<open>Error signals of the date parameters\<close>

text \<open>
  C1. The claim is that a malformed \<^verbatim>\<open>start_date\<close> or \<^verbatim>\<open>end_date\<close> is answered with the
  client error 400. The handlers raise that exception inside a \<^verbatim>\<open>try\<close> whose
  \<^verbatim>\<open>except Exception\<close> catches it again: whenever the parser rejects a provided string
  with a ValueError, the daily endpoint answers 500 with the detail
  \<^verbatim>\<open>Processing error\<close>, for the start date and for the end date alike, and the summary
  endpoint answers 500 with the text of the 400 exception inside its detail.
\<close>

theorem malformed_date_answers_500:
  assumes "parse s = Inl (ValueError m)" and "s \<noteq> []"
  shows "get_daily_data parse utcnow db i (Some s) ed c =
           Inl (HTTPException 500 ''Processing error'') \<and>
         get_daily_data parse utcnow db i sd (Some s) c =
           Inl (HTTPException 500 ''Processing error'') \<and>
         get_summary parse utcnow db (Some s) c =
           Inl (HTTPException 500 (''Database error: '' @
             exn_str (HTTPException 400 ''Invalid date format. Use YYYY-MM-DD'')))"
proof -
  have d1: "daily_dates parse utcnow (Some s) ed = Inl (ValueError m)"
    using assms by (simp add: daily_dates_def)
  have "\<exists>e. daily_dates parse utcnow sd (Some s) = Inl e"
    using assms by (simp add: daily_dates_def Let_def split: sum.splits option.splits)
  then obtain e where e: "daily_dates parse utcnow sd (Some s) = Inl e"
    by blast
  have s1: "summary_dates parse utcnow (Some s) =
      Inl (HTTPException 400 ''Invalid date format. Use YYYY-MM-DD'')"
    using assms by (simp add: summary_dates_def)
  have a: "get_daily_data parse utcnow db i (Some s) ed c =
      Inl (HTTPException 500 ''Processing error'')"
    by (simp add: get_daily_data_def daily_body_def d1)
  have b: "get_daily_data parse utcnow db i sd (Some s) c =
      Inl (HTTPException 500 ''Processing error'')"
    by (cases e) (simp_all add: get_daily_data_def daily_body_def e)
  have c: "get_summary parse utcnow db (Some s) c =
      Inl (HTTPException 500 (''Database error: '' @
        exn_str (HTTPException 400 ''Invalid date format. Use YYYY-MM-DD'')))"
    by (simp add: get_summary_def summary_body_def s1)
  from a b c show ?thesis by simp
qed

theorem malformed_date_answers_500_witness:
  "fromisoformat ''not-a-date'' = Inl (ValueError ''Invalid isoformat string: not-a-date'') \<and>
   get_daily_data fromisoformat example_now example_db 10 (Some ''not-a-date'') None None =
     Inl (HTTPException 500 ''Processing error'') \<and>
   get_daily_data fromisoformat example_now example_db 10 (Some ''2024-03-01'')
       (Some ''not-a-date'') None =
     Inl (HTTPException 500 ''Processing error'') \<and>
   get_summary fromisoformat example_now example_db (Some ''not-a-date'') None =
     Inl (HTTPException 500 ''Database error: 400: Invalid date format. Use YYYY-MM-DD'')"
  using malformed_date_answers_500 [of fromisoformat "''not-a-date''"
      "''Invalid isoformat string: not-a-date''" example_now example_db 10 None None
      "Some ''2024-03-01''"] fromisoformat_not_a_date show_int_400
  by simp

subsection \<open>The time range of the hourly endpoint\<close>

text \<open>
  C2. The claim is that the hourly range ends at the start of the current hour, with the
  cutoff at 21:00 on top, and that no bucket lies outside it. The handler computes that
  end and passes it as \<^verbatim>\<open>:end_time\<close>, but the statement never mentions the parameter. At
  10:30 with records at 10:15 and 12:00 the answer holds a bucket fed by the record of
  10:15 and a bucket at 12:00, which starts after the start of the current hour.
\<close>

theorem hourly_end_time_unused:
  "get_hourly_data example_now example_db None =
     Inr [\<lparr>VehicleCountResponse.timestamp =
            \<lparr>year = 2024, month = 3, day = 1, hour = 10, minute = 0, second = 0, microsecond = 0\<rparr>,
           camera_id = ''cam1'', car = 3, bike = 1, truck = 0, bus = 0, auto = 0, total' = 4\<rparr>,
          \<lparr>VehicleCountResponse.timestamp =
            \<lparr>year = 2024, month = 3, day = 1, hour = 12, minute = 0, second = 0, microsecond = 0\<rparr>,
           camera_id = ''cam1'', car = 4, bike = 1, truck = 0, bus = 0, auto = 0, total' = 5\<rparr>] \<and>
   dt_key (example_now\<lparr>minute := 0, second := 0, microsecond := 0\<rparr>) <
     dt_key \<lparr>year = 2024, month = 3, day = 1, hour = 12, minute = 0, second = 0, microsecond = 0\<rparr>"
  by (simp add: get_hourly_data_def hourly_body_def hourly_min_time_def hourly_query_def
      from_table_def example_db_def example_now_def example_row_def camera_clause_def dt_key_def
      date_trunc_day_def date_trunc_hour_def sql_min_def dt_min_def group_by_def order_by_def
      response_of_def coalesce_def sql_sum_def)

subsection \<open>The table of the cameras endpoint\<close>

text \<open>
  C3. The claim is that the cameras endpoint lists the camera identifiers of the table
  the aggregation endpoints read. Its statement names the table with hyphens where the
  mapped table has underscores: on a database that holds the mapped table, with records
  of camera \<^verbatim>\<open>cam1\<close>, the endpoint answers 500 and lists nothing.
\<close>

theorem cameras_reads_hyphenated_table:
  "from_table example_db VehicleCount_tablename =
     Inr [example_row 1 10 15 ''cam1'' 3, example_row 2 12 0 ''cam1'' 4] \<and>
   get_cameras example_db =
     Inl (HTTPException 500
       ''Database error: relation does not exist: jaloli_thresholds-detections-counts'')"
  by (simp add: get_cameras_def cameras_body_def from_table_def example_db_def
      cameras_tablename_def VehicleCount_tablename_def)

subsection \<open>The empty camera parameter\<close>

text \<open>
  C9. On each of the five endpoints that take \<^verbatim>\<open>camera_id\<close>, the empty string is the
  parameter left out: the answers are equal, so no camera condition is applied.
\<close>

theorem empty_camera_id_is_omitted:
  "get_secondly_data utcnow db (Some []) = get_secondly_data utcnow db None \<and>
   get_hourly_data utcnow db (Some []) = get_hourly_data utcnow db None \<and>
   get_daily_data parse utcnow db i sd ed (Some []) = get_daily_data parse utcnow db i sd ed None \<and>
   get_last_hour_summary utcnow db (Some []) = get_last_hour_summary utcnow db None \<and>
   get_summary parse utcnow db sd (Some []) = get_summary parse utcnow db sd None"
  unfolding get_secondly_data_def secondly_body_def secondly_query_empty
    secondly_fallback_query_empty get_hourly_data_def hourly_body_def hourly_min_time_def
    hourly_query_def get_daily_data_def daily_body_def daily_query_def
    get_last_hour_summary_def last_hour_body_def get_summary_def summary_body_def
    totals_query_def peak_hour_query_def summary_where_def camera_clause_empty
  by simp

subsection \<open>The fallback of the secondly endpoint\<close>

lemma secondly_query_fallback:
  "secondly_query t c =
     (secondly_fallback_query c)\<lparr>whereclause :=
        Timestamp_ge t # whereclause (secondly_fallback_query c)\<rparr>"
  by (cases "provided c")
    (simp_all add: secondly_query_def secondly_fallback_query_def where'_def
      select_VehicleCount_def)

lemma secondly_fallback_where:
  "whereclause (secondly_fallback_query c) =
     (case provided c of None \<Rightarrow> [] | Some x \<Rightarrow> [Camera_eq x])"
  by (cases "provided c")
    (simp_all add: secondly_fallback_query_def where'_def select_VehicleCount_def)

lemma secondly_queries_differ: "secondly_fallback_query c \<noteq> secondly_query t c"
proof
  assume "secondly_fallback_query c = secondly_query t c"
  then have "whereclause (secondly_fallback_query c) = whereclause (secondly_query t c)"
    by simp
  then show False
    by (simp add: secondly_query_fallback)
qed

lemma example_idle_minute_ago:
  "dt_sub example_idle_now (timedelta_of 0 0 1) =
     Inr \<lparr>year = 2024, month = 3, day = 2, hour = 7, minute = 59, second = 0, microsecond = 0\<rparr>"
  by (simp add: dt_sub_def timedelta_of_def example_idle_now_def)

lemma example_minute_ago:
  "dt_sub example_now (timedelta_of 0 0 1) =
     Inr \<lparr>year = 2024, month = 3, day = 1, hour = 10, minute = 29, second = 0, microsecond = 0\<rparr>"
  by (simp add: dt_sub_def timedelta_of_def example_now_def)

lemma example_idle_primary:
  "execute_select example_db
     (secondly_query
        \<lparr>year = 2024, month = 3, day = 2, hour = 7, minute = 59, second = 0, microsecond = 0\<rparr>
        None) = Inr []"
  by (simp add: execute_select_def from_table_def example_db_def example_row_def
      secondly_query_def where'_def select_VehicleCount_def order_by_desc_def dt_key_def)

lemma example_idle_fallback:
  "execute_select example_db (secondly_fallback_query None) =
     Inr [example_row 2 12 0 ''cam1'' 4, example_row 1 10 15 ''cam1'' 3]"
  by (simp add: execute_select_def from_table_def example_db_def example_row_def
      secondly_fallback_query_def select_VehicleCount_def order_by_desc_def dt_key_def)

lemma example_primary:
  "execute_select example_db
     (secondly_query
        \<lparr>year = 2024, month = 3, day = 1, hour = 10, minute = 29, second = 0, microsecond = 0\<rparr>
        None) = Inr [example_row 2 12 0 ''cam1'' 4]"
  by (simp add: execute_select_def from_table_def example_db_def example_row_def
      secondly_query_def where'_def select_VehicleCount_def order_by_desc_def dt_key_def)

lemma example_empty_select: "execute_select example_empty_db q = Inr []"
  by (cases "limit q")
    (simp_all add: execute_select_def from_table_def example_empty_db_def order_by_desc_def)

text \<open>
  C5. With \<open>t\<close> the instant one minute before now, the fallback statement is among the
  statements the secondly handler executes exactly when the windowed statement returned
  no rows. It is then executed once, after the windowed one, and its rows are the answer;
  if it returns no rows either, the answer is the empty list and no error. The windowed
  statement is the fallback statement with the condition on the timestamp put in front:
  the fallback keeps the camera condition (if the parameter is provided), the descending
  order and the limit of 60.
\<close>

theorem secondly_fallback_iff_empty:
  assumes "dt_sub utcnow (timedelta_of 0 0 1) = Inr t"
  shows "(secondly_fallback_query c \<in> set (snd (get_secondly_data utcnow db c))) =
           (execute_select db (secondly_query t c) = Inr []) \<and>
         (execute_select db (secondly_query t c) = Inr [] \<longrightarrow>
            snd (get_secondly_data utcnow db c) =
              [secondly_query t c, secondly_fallback_query c] \<and>
            fst (get_secondly_data utcnow db c) =
              (case execute_select db (secondly_fallback_query c) of
                 Inl e \<Rightarrow> Inl (HTTPException 500 (''Database error: '' @ exn_str e))
               | Inr results \<Rightarrow> Inr results)) \<and>
         (execute_select db (secondly_query t c) = Inr [] \<and>
          execute_select db (secondly_fallback_query c) = Inr [] \<longrightarrow>
            fst (get_secondly_data utcnow db c) = Inr []) \<and>
         secondly_query t c =
           (secondly_fallback_query c)\<lparr>whereclause :=
              Timestamp_ge t # whereclause (secondly_fallback_query c)\<rparr> \<and>
         whereclause (secondly_fallback_query c) =
           (case provided c of None \<Rightarrow> [] | Some x \<Rightarrow> [Camera_eq x]) \<and>
         order_by_timestamp_desc (secondly_fallback_query c) \<and>
         limit (secondly_fallback_query c) = Some 60"
proof -
  let ?p = "secondly_query t c" and ?f = "secondly_fallback_query c"
  have body: "secondly_body utcnow db c =
      (case execute_select db ?p of
         Inl e \<Rightarrow> (Inl e, [?p])
       | Inr results \<Rightarrow>
           if results = [] then
             (case execute_select db ?f of
                Inl e \<Rightarrow> (Inl e, [?p, ?f])
              | Inr results \<Rightarrow> (Inr results, [?p, ?f]))
           else (Inr results, [?p]))"
    using assms by (simp add: secondly_body_def Let_def split: sum.splits)
  have ne: "?f \<noteq> ?p"
    by (rule secondly_queries_differ)
  have 1: "(?f \<in> set (snd (get_secondly_data utcnow db c))) = (execute_select db ?p = Inr [])"
    using ne by (auto simp: get_secondly_data_def body split: sum.splits)
  have 2: "execute_select db ?p = Inr [] \<longrightarrow>
            snd (get_secondly_data utcnow db c) = [?p, ?f] \<and>
            fst (get_secondly_data utcnow db c) =
              (case execute_select db ?f of
                 Inl e \<Rightarrow> Inl (HTTPException 500 (''Database error: '' @ exn_str e))
               | Inr results \<Rightarrow> Inr results)"
    by (auto simp: get_secondly_data_def body split: sum.splits)
  have 3: "execute_select db ?p = Inr [] \<and> execute_select db ?f = Inr [] \<longrightarrow>
            fst (get_secondly_data utcnow db c) = Inr []"
    by (auto simp: get_secondly_data_def body split: sum.splits)
  have 4: "order_by_timestamp_desc ?f \<and> limit ?f = Some 60"
    by (simp add: secondly_fallback_query_def Let_def)
  from 1 2 3 4 secondly_query_fallback [of t c] secondly_fallback_where [of c]
  show ?thesis by blast
qed

theorem secondly_fallback_iff_empty_witness:
  "fst (get_secondly_data example_idle_now example_db None) =
     Inr [example_row 2 12 0 ''cam1'' 4, example_row 1 10 15 ''cam1'' 3] \<and>
   snd (get_secondly_data example_idle_now example_db None) =
     [secondly_query
        \<lparr>year = 2024, month = 3, day = 2, hour = 7, minute = 59, second = 0, microsecond = 0\<rparr>
        None,
      secondly_fallback_query None] \<and>
   fst (get_secondly_data example_idle_now example_empty_db None) = Inr [] \<and>
   secondly_fallback_query None \<notin> set (snd (get_secondly_data example_now example_db None))"
  using secondly_fallback_iff_empty [OF example_idle_minute_ago, of None example_db]
    secondly_fallback_iff_empty [OF example_idle_minute_ago, of None example_empty_db]
    secondly_fallback_iff_empty [OF example_minute_ago, of None example_db]
    example_idle_primary example_idle_fallback example_primary example_empty_select
  by simp

subsection \<open>The summary of a day without records\<close>

lemma summary_dates_example:
  "summary_dates fromisoformat example_now (Some ''2024-03-02'') =
     Inr (\<lparr>year = 2024, month = 3, day = 2, hour = 0, minute = 0, second = 0, microsecond = 0\<rparr>,
          \<lparr>year = 2024, month = 3, day = 2, hour = 23, minute = 59, second = 59,
           microsecond = 999999\<rparr>)"
  by (simp add: summary_dates_def fromisoformat_def fixed_digits_def digit_val_def
      valid_datetime_def days_in_month_def)

lemma example_db_table:
  "tables example_db VehicleCount_tablename =
     Some [example_row 1 10 15 ''cam1'' 3, example_row 2 12 0 ''cam1'' 4]"
  by (simp add: example_db_def)

lemma summary_where_example:
  "summary_where
     \<lparr>year = 2024, month = 3, day = 2, hour = 0, minute = 0, second = 0, microsecond = 0\<rparr>
     \<lparr>year = 2024, month = 3, day = 2, hour = 23, minute = 59, second = 59, microsecond = 999999\<rparr>
     None [example_row 1 10 15 ''cam1'' 3, example_row 2 12 0 ''cam1'' 4] = []"
  by (simp add: summary_where_def example_row_def dt_key_def)

lemma date_isoformat_example:
  "date_isoformat
     \<lparr>year = 2024, month = 3, day = 2, hour = 0, minute = 0, second = 0, microsecond = 0\<rparr> =
   ''2024-03-02''"
  by code_simp

text \<open>
  The order of the peak statement on a day with records: an hour whose totals are all
  missing comes before the hours with an average.
\<close>

lemma peak_hour_query_null_average_first:
  "peak_hour_query
     \<lparr>tables = [VehicleCount_tablename \<mapsto>
        [example_row 1 10 15 ''cam1'' 3, (example_row 2 11 0 ''cam1'' 0)\<lparr>total' := None\<rparr>,
         example_row 3 12 0 ''cam1'' 7]],
      sql_now = example_now\<rparr>
     \<lparr>year = 2024, month = 3, day = 1, hour = 0, minute = 0, second = 0, microsecond = 0\<rparr>
     \<lparr>year = 2024, month = 3, day = 1, hour = 23, minute = 59, second = 59, microsecond = 999999\<rparr>
     None =
   Inr (Some (\<lparr>year = 2024, month = 3, day = 1, hour = 11, minute = 0, second = 0,
               microsecond = 0\<rparr>, None))"
  by (simp add: peak_hour_query_def from_table_def VehicleCount_tablename_def summary_where_def
      example_row_def camera_clause_def dt_key_def date_trunc_hour_def group_by_def
      order_by_def desc_nulls_first_def sql_avg_def)

lemma peak_hour_query_highest_average_first:
  "peak_hour_query example_db
     \<lparr>year = 2024, month = 3, day = 1, hour = 0, minute = 0, second = 0, microsecond = 0\<rparr>
     \<lparr>year = 2024, month = 3, day = 1, hour = 23, minute = 59, second = 59, microsecond = 999999\<rparr>
     None =
   Inr (Some (\<lparr>year = 2024, month = 3, day = 1, hour = 12, minute = 0, second = 0,
               microsecond = 0\<rparr>, Some 5))"
  by (simp add: peak_hour_query_def from_table_def example_db_def summary_where_def
      example_row_def camera_clause_def dt_key_def date_trunc_hour_def group_by_def
      order_by_def desc_nulls_first_def sql_avg_def)

text \<open>
  C7. When the date parameter is accepted (or left out), the table exists and no record
  of the day matches, the summary reports 0 for each of the five categories and for
  \<^verbatim>\<open>all\<close>, no peak hour, a peak hour count of 0 and a record count of 0.
\<close>

theorem summary_of_empty_day:
  assumes "summary_dates parse utcnow sd = Inr (s, e)"
      and "tables db VehicleCount_tablename = Some rows"
      and "summary_where s e c rows = []"
  shows "get_summary parse utcnow db sd c =
           Inr \<lparr>date = date_isoformat s,
                total_vehicles =
                  \<lparr>total_vehicles.cars = 0, total_vehicles.bikes = 0,
                   total_vehicles.trucks = 0, total_vehicles.buses = 0,
                   total_vehicles.autos = 0, total_vehicles.all' = 0\<rparr>,
                peak_hour = None, peak_hour_count = 0, record_count = 0\<rparr>"
proof -
  have t: "totals_query db s e c =
      Inr (\<lparr>total_vehicles.cars = 0, total_vehicles.bikes = 0,
            total_vehicles.trucks = 0, total_vehicles.buses = 0,
            total_vehicles.autos = 0, total_vehicles.all' = 0\<rparr>, 0)"
    by (simp add: totals_query_def from_table_def assms sql_sum_def coalesce_def)
  have p: "peak_hour_query db s e c = Inr None"
    by (simp add: peak_hour_query_def from_table_def assms group_by_def order_by_def)
  show ?thesis
    by (simp add: get_summary_def summary_body_def assms(1) t p)
qed

theorem summary_of_empty_day_witness:
  "get_summary fromisoformat example_now example_db (Some ''2024-03-02'') None =
     Inr \<lparr>date = ''2024-03-02'',
          total_vehicles =
            \<lparr>total_vehicles.cars = 0, total_vehicles.bikes = 0,
             total_vehicles.trucks = 0, total_vehicles.buses = 0,
             total_vehicles.autos = 0, total_vehicles.all' = 0\<rparr>,
          peak_hour = None, peak_hour_count = 0, record_count = 0\<rparr>"
  using summary_of_empty_day [OF summary_dates_example example_db_table summary_where_example]
    date_isoformat_example
  by simp

subsection \<open>Datetime strings as date parameters\<close>


















subsection \<open>The range and the buckets of the daily endpoint\<close>

lemma validate_interval_range: "1 \<le> validate_interval i \<and> validate_interval i \<le> 60"
  by (simp add: validate_interval_def)

lemma bucket_minute_le:
  assumes "1 \<le> i"
  shows "nat (int m div i * i) \<le> m"
proof -
  have "int m div i * i + int m mod i = int m"
    by simp
  moreover have "0 \<le> int m mod i"
    using assms by simp
  ultimately have "int m div i * i \<le> int m"
    by linarith
  then show ?thesis
    by simp
qed

lemma time_bucket_le: "1 \<le> i \<Longrightarrow> dt_key (time_bucket i t) \<le> dt_key t"
  using bucket_minute_le [of i "minute t"]
  by (auto simp: dt_key_def time_bucket_def date_trunc_hour_def)

lemma time_bucket_ge:
  assumes "dt_key \<lparr>year = y, month = m, day = d, hour = 0, minute = 0, second = 0, microsecond = 0\<rparr>
             \<le> dt_key t"
  shows "dt_key \<lparr>year = y, month = m, day = d, hour = 0, minute = 0, second = 0, microsecond = 0\<rparr>
           \<le> dt_key (time_bucket i t)"
  using assms by (auto simp: dt_key_def time_bucket_def date_trunc_hour_def)

lemma group_by_keys: "g \<in> set (group_by key rows) \<Longrightarrow> \<exists>r\<in>set rows. fst g = key r"
  by (auto simp: group_by_def)

lemma daily_query_buckets:
  assumes "daily_query db i s e c = Inr bs" and "b \<in> set bs"
  shows "\<exists>r::VehicleCount. dt_key s \<le> dt_key (timestamp r) \<and> dt_key (timestamp r) \<le> dt_key e \<and>
             VehicleCountResponse.timestamp b = time_bucket i (timestamp r)"
proof -
  from assms(1) obtain rows where
    bs: "bs = map response_of
            (order_by (\<lambda>g. dt_key (fst (fst g)))
              (group_by (\<lambda>r. (time_bucket i (timestamp r), camera_id r))
                (filter (\<lambda>r. dt_key s \<le> dt_key (timestamp r) \<and>
                              dt_key (timestamp r) \<le> dt_key e \<and>
                              camera_clause c r) rows)))"
    by (auto simp: daily_query_def split: sum.splits)
  with assms(2) obtain g where
    g: "g \<in> set (group_by (\<lambda>r. (time_bucket i (timestamp r), camera_id r))
                (filter (\<lambda>r. dt_key s \<le> dt_key (timestamp r) \<and>
                              dt_key (timestamp r) \<le> dt_key e \<and>
                              camera_clause c r) rows))"
    and b: "b = response_of g"
    by (auto simp: order_by_def)
  from group_by_keys [OF g] obtain r where
    rin: "r \<in> set (filter (\<lambda>r. dt_key s \<le> dt_key (timestamp r) \<and>
                              dt_key (timestamp r) \<le> dt_key e \<and>
                              camera_clause c r) rows)" and
    rkey: "fst g = (time_bucket i (timestamp r), camera_id r)"
    by blast
  from rin rkey have
    r: "dt_key s \<le> dt_key (timestamp r)" "dt_key (timestamp r) \<le> dt_key e"
       "fst g = (time_bucket i (timestamp r), camera_id r)"
    by simp_all
  from b r(3) have "VehicleCountResponse.timestamp b = time_bucket i (timestamp r)"
    by (simp add: response_of_def)
  with r show ?thesis by blast
qed

text \<open>
  C6. Every answer of the daily endpoint comes with a start datetime \<open>d0\<close> and an end
  datetime \<open>d1\<close>: \<open>d0\<close> is the parsed \<^verbatim>\<open>start_date\<close>, or now minus one day when the
  parameter is left out; \<open>d1\<close> is the parsed \<^verbatim>\<open>end_date\<close>, or \<open>d0\<close> when that is left out.
  The range of the query is from 00:00:00.000000 on the day of \<open>d0\<close> to 23:59:59.999999
  on the day of \<open>d1\<close>, and every bucket of the answer starts within it.
\<close>

theorem daily_range_bounds:
  assumes "get_daily_data parse utcnow db i sd ed c = Inr buckets"
  shows "\<exists>d0 d1.
           (case provided sd of Some x \<Rightarrow> parse x
            | None \<Rightarrow> dt_sub utcnow (timedelta_of 1 0 0)) = Inr d0 \<and>
           (case provided ed of Some x \<Rightarrow> parse x | None \<Rightarrow> Inr d0) = Inr d1 \<and>
           daily_dates parse utcnow sd ed =
             Inr (\<lparr>year = year d0, month = month d0, day = day d0,
                   hour = 0, minute = 0, second = 0, microsecond = 0\<rparr>,
                  \<lparr>year = year d1, month = month d1, day = day d1,
                   hour = 23, minute = 59, second = 59, microsecond = 999999\<rparr>) \<and>
           (\<forall>b\<in>set buckets.
              dt_key \<lparr>year = year d0, month = month d0, day = day d0,
                      hour = 0, minute = 0, second = 0, microsecond = 0\<rparr>
                \<le> dt_key (VehicleCountResponse.timestamp b) \<and>
              dt_key (VehicleCountResponse.timestamp b)
                \<le> dt_key \<lparr>year = year d1, month = month d1, day = day d1,
                        hour = 23, minute = 59, second = 59, microsecond = 999999\<rparr>)"
proof -
  from assms obtain s e where
    dates: "daily_dates parse utcnow sd ed = Inr (s, e)" and
    q: "daily_query db (validate_interval i) s e c = Inr buckets"
    by (auto simp: get_daily_data_def daily_body_def split: sum.splits exn.splits)
  from dates obtain d0 where
    d0: "(case provided sd of Some x \<Rightarrow> parse x
          | None \<Rightarrow> dt_sub utcnow (timedelta_of 1 0 0)) = Inr d0"
    by (auto simp: daily_dates_def split: sum.splits)
  let ?s = "\<lparr>year = year d0, month = month d0, day = day d0,
             hour = 0, minute = 0, second = 0, microsecond = 0\<rparr>"
  have s0: "d0\<lparr>hour := 0, minute := 0, second := 0, microsecond := 0\<rparr> = ?s"
    by (cases d0) simp
  from dates d0 obtain e0 where
    e0: "(case provided ed of Some x \<Rightarrow> parse x | None \<Rightarrow> Inr ?s) = Inr e0" and
    se: "s = ?s" "e = e0\<lparr>hour := 23, minute := 59, second := 59, microsecond := 999999\<rparr>"
    by (auto simp: daily_dates_def Let_def s0 split: sum.splits)
  define d1 where "d1 = (case provided ed of Some x \<Rightarrow> e0 | None \<Rightarrow> d0)"
  have d1: "(case provided ed of Some x \<Rightarrow> parse x | None \<Rightarrow> Inr d0) = Inr d1"
    using e0 by (auto simp: d1_def split: option.splits)
  let ?e = "\<lparr>year = year d1, month = month d1, day = day d1,
             hour = 23, minute = 59, second = 59, microsecond = 999999\<rparr>"
  have e1: "e = ?e"
    using e0 se(2) by (cases e0) (auto simp: d1_def split: option.splits)
  have "dt_key ?s \<le> dt_key (VehicleCountResponse.timestamp b) \<and>
        dt_key (VehicleCountResponse.timestamp b) \<le> dt_key ?e" if "b \<in> set buckets" for b
  proof -
    from daily_query_buckets [OF q that] obtain r :: VehicleCount where
      r: "dt_key s \<le> dt_key (timestamp r)" "dt_key (timestamp r) \<le> dt_key e"
         "VehicleCountResponse.timestamp b = time_bucket (validate_interval i) (timestamp r)"
      by blast
    have lo: "dt_key ?s \<le> dt_key (time_bucket (validate_interval i) (timestamp r))"
      using r(1) unfolding se(1) by (rule time_bucket_ge)
    have "dt_key (time_bucket (validate_interval i) (timestamp r)) \<le> dt_key (timestamp r)"
      using validate_interval_range [of i] by (intro time_bucket_le) simp
    then have hi: "dt_key (time_bucket (validate_interval i) (timestamp r)) \<le> dt_key ?e"
      using r(2) unfolding e1 by (rule order_trans)
    from lo hi r(3) show ?thesis by simp
  qed
  moreover have "daily_dates parse utcnow sd ed = Inr (?s, ?e)"
    using dates se(1) e1 by simp
  ultimately show ?thesis
    using d0 d1 by blast
qed


lemma example_idle_yesterday:
  "dt_sub example_idle_now (timedelta_of 1 0 0) =
     Inr \<lparr>year = 2024, month = 3, day = 1, hour = 8, minute = 0, second = 0, microsecond = 0\<rparr>"
  by (simp add: dt_sub_def timedelta_of_def example_idle_now_def)

lemma daily_dates_default_example:
  "daily_dates fromisoformat example_idle_now None None =
     Inr (\<lparr>year = 2024, month = 3, day = 1, hour = 0, minute = 0, second = 0, microsecond = 0\<rparr>,
          \<lparr>year = 2024, month = 3, day = 1, hour = 23, minute = 59, second = 59,
           microsecond = 999999\<rparr>)"
  using example_idle_yesterday by (simp add: daily_dates_def)

lemma get_daily_data_default_example:
  "get_daily_data fromisoformat example_idle_now example_db 10 None None None =
   Inr [\<lparr>VehicleCountResponse.timestamp =
          \<lparr>year = 2024, month = 3, day = 1, hour = 10, minute = 10, second = 0, microsecond = 0\<rparr>,
         camera_id = ''cam1'', car = 3, bike = 1, truck = 0, bus = 0, auto = 0, total' = 4\<rparr>,
        \<lparr>VehicleCountResponse.timestamp =
          \<lparr>year = 2024, month = 3, day = 1, hour = 12, minute = 0, second = 0, microsecond = 0\<rparr>,
         camera_id = ''cam1'', car = 4, bike = 1, truck = 0, bus = 0, auto = 0, total' = 5\<rparr>]"
  using daily_query_example
  by (simp add: get_daily_data_def daily_body_def daily_dates_default_example
      validate_interval_def)

theorem daily_range_bounds_witness:
  "get_daily_data fromisoformat example_now example_db 10 (Some ''2024-03-01'') None None =
     Inr [\<lparr>VehicleCountResponse.timestamp =
            \<lparr>year = 2024, month = 3, day = 1, hour = 10, minute = 10, second = 0, microsecond = 0\<rparr>,
           camera_id = ''cam1'', car = 3, bike = 1, truck = 0, bus = 0, auto = 0, total' = 4\<rparr>,
          \<lparr>VehicleCountResponse.timestamp =
            \<lparr>year = 2024, month = 3, day = 1, hour = 12, minute = 0, second = 0, microsecond = 0\<rparr>,
           camera_id = ''cam1'', car = 4, bike = 1, truck = 0, bus = 0, auto = 0, total' = 5\<rparr>] \<and>
   get_daily_data fromisoformat example_idle_now example_db 10 None None None =
     get_daily_data fromisoformat example_now example_db 10 (Some ''2024-03-01'') None None \<and>
   list_all
     (\<lambda>b. dt_key \<lparr>year = 2024, month = 3, day = 1, hour = 0, minute = 0, second = 0,
                     microsecond = 0\<rparr> \<le> dt_key (VehicleCountResponse.timestamp b) \<and>
          dt_key (VehicleCountResponse.timestamp b) \<le>
            dt_key \<lparr>year = 2024, month = 3, day = 1, hour = 23, minute = 59, second = 59,
                    microsecond = 999999\<rparr>)
     [\<lparr>VehicleCountResponse.timestamp =
            \<lparr>year = 2024, month = 3, day = 1, hour = 10, minute = 10, second = 0, microsecond = 0\<rparr>,
           camera_id = ''cam1'', car = 3, bike = 1, truck = 0, bus = 0, auto = 0, total' = 4\<rparr>,
          \<lparr>VehicleCountResponse.timestamp =
            \<lparr>year = 2024, month = 3, day = 1, hour = 12, minute = 0, second = 0, microsecond = 0\<rparr>,
           camera_id = ''cam1'', car = 4, bike = 1, truck = 0, bus = 0, auto = 0, total' = 5\<rparr>]"
proof -
  from daily_range_bounds [OF get_daily_data_example] obtain d0 d1 where
    d0: "fromisoformat ''2024-03-01'' = Inr d0" and d1: "d1 = d0" and
    b: "\<forall>b\<in>set [\<lparr>VehicleCountResponse.timestamp =
            \<lparr>year = 2024, month = 3, day = 1, hour = 10, minute = 10, second = 0, microsecond = 0\<rparr>,
           camera_id = ''cam1'', car = 3, bike = 1, truck = 0, bus = 0, auto = 0, total' = 4\<rparr>,
          \<lparr>VehicleCountResponse.timestamp =
            \<lparr>year = 2024, month = 3, day = 1, hour = 12, minute = 0, second = 0, microsecond = 0\<rparr>,
           camera_id = ''cam1'', car = 4, bike = 1, truck = 0, bus = 0, auto = 0, total' = 5\<rparr>].
          dt_key \<lparr>year = year d0, month = month d0, day = day d0,
                      hour = 0, minute = 0, second = 0, microsecond = 0\<rparr>
                \<le> dt_key (VehicleCountResponse.timestamp b) \<and>
              dt_key (VehicleCountResponse.timestamp b)
                \<le> dt_key \<lparr>year = year d1, month = month d1, day = day d1,
                        hour = 23, minute = 59, second = 59, microsecond = 999999\<rparr>"
    by auto
  from d0 have "d0 = \<lparr>year = 2024, month = 3, day = 1, hour = 0, minute = 0, second = 0,
      microsecond = 0\<rparr>"
    by (simp add: fromisoformat_date)
  with b d1 show ?thesis
    by (simp add: get_daily_data_example get_daily_data_default_example)
qed

lemma remdups_map_const:
  "xs \<noteq> [] \<Longrightarrow> \<forall>x\<in>set xs. f x = k \<Longrightarrow> remdups (map f xs) = [k]"
proof (induction xs)
  case Nil
  then show ?case by simp
next
  case (Cons x xs)
  show ?case
  proof (cases "xs = []")
    case True
    with Cons.prems show ?thesis by simp
  next
    case False
    with Cons have ih: "remdups (map f xs) = [k]"
      by simp
    have "set (map f xs) = {k}"
      using set_remdups [of "map f xs"] ih by simp
    moreover have "f x = k"
      using Cons.prems by simp
    ultimately show ?thesis
      using ih by simp
  qed
qed

lemma group_by_single_key:
  assumes "rows \<noteq> []" and "\<forall>r\<in>set rows. key r = k"
  shows "group_by key rows = [(k, rows)]"
proof -
  have "remdups (map key rows) = [k]"
    using assms by (rule remdups_map_const)
  moreover have "filter (\<lambda>r. key r = k) rows = rows"
    using assms(2) by simp
  ultimately show ?thesis
    by (simp add: group_by_def)
qed

lemma sum_list_map_filter:
  "sum_list (List.map_filter (\<lambda>v. v) vs) = sum_list (map (\<lambda>v. coalesce v (0::int)) vs)"
  by (induction vs) (auto simp: List.map_filter_simps coalesce_def split: option.splits)

lemma coalesce_sql_sum: "coalesce (sql_sum vs) 0 = sum_list (map (\<lambda>v. coalesce v 0) vs)"
  using sum_list_map_filter [of vs]
  by (cases "List.map_filter (\<lambda>v. v) vs") (simp_all add: sql_sum_def coalesce_def)

lemma response_of_sums:
  "response_of ((t, cam), rows) =
     \<lparr>VehicleCountResponse.timestamp = t,
      VehicleCountResponse.camera_id = cam,
      VehicleCountResponse.car = sum_list (map (\<lambda>r. coalesce (car r) 0) rows),
      VehicleCountResponse.bike = sum_list (map (\<lambda>r. coalesce (bike r) 0) rows),
      VehicleCountResponse.truck = sum_list (map (\<lambda>r. coalesce (truck r) 0) rows),
      VehicleCountResponse.bus = sum_list (map (\<lambda>r. coalesce (bus r) 0) rows),
      VehicleCountResponse.auto = sum_list (map (\<lambda>r. coalesce (auto r) 0) rows),
      VehicleCountResponse.total' = sum_list (map (\<lambda>r. coalesce (total' r) 0) rows)\<rparr>"
  by (simp add: response_of_def coalesce_sql_sum comp_def)

lemma time_bucket_window:
  assumes "10 * k \<le> minute t" and "minute t < 10 * k + 10"
  shows "time_bucket 10 t =
     \<lparr>year = year t, month = month t, day = day t, hour = hour t, minute = 10 * k,
      second = 0, microsecond = 0\<rparr>"
proof -
  have "int (minute t) div 10 = int k"
    using assms by presburger
  then show ?thesis
    by (cases t) (simp add: time_bucket_def date_trunc_hour_def)
qed


text \<open>
  C8, as the claim states it: any N records of one camera within a single 10-minute
  window give exactly one bucket. They do not. The buckets are the aligned windows that
  start at the multiples of the interval: two records five minutes apart, at 10:07 and at
  10:12, fall into the buckets 10:00 and 10:10. And with no record at all the answer has
  no bucket.
\<close>

theorem daily_unaligned_window_counterexample:
  "tables example_unaligned_db VehicleCount_tablename =
     Some [example_row 1 10 7 ''cam1'' 3, example_row 2 10 12 ''cam1'' 4] \<and>
   get_daily_data fromisoformat example_now example_unaligned_db 10 (Some ''2024-03-01'') None None =
     Inr [\<lparr>VehicleCountResponse.timestamp =
            \<lparr>year = 2024, month = 3, day = 1, hour = 10, minute = 0, second = 0, microsecond = 0\<rparr>,
           camera_id = ''cam1'', car = 3, bike = 1, truck = 0, bus = 0, auto = 0, total' = 4\<rparr>,
          \<lparr>VehicleCountResponse.timestamp =
            \<lparr>year = 2024, month = 3, day = 1, hour = 10, minute = 10, second = 0, microsecond = 0\<rparr>,
           camera_id = ''cam1'', car = 4, bike = 1, truck = 0, bus = 0, auto = 0, total' = 5\<rparr>] \<and>
   tables example_empty_db VehicleCount_tablename = Some [] \<and>
   get_daily_data fromisoformat example_now example_empty_db 10 (Some ''2024-03-01'') None None =
     Inr []"
  by (simp add: get_daily_data_def daily_body_def daily_dates_example validate_interval_def
      daily_query_def from_table_def example_unaligned_db_def example_empty_db_def example_row_def
      camera_clause_def dt_key_def time_bucket_def date_trunc_hour_def group_by_def order_by_def
      response_of_def coalesce_def sql_sum_def)

text \<open>
  C8, amended. Let the table hold at least one record, all records of one camera and
  inside one bucket window of ten minutes (same day and hour, minute from \<open>10 * k\<close> up to
  \<open>10 * k + 9\<close>), all within the requested range, with a camera parameter that is left out
  or names that camera. Then the daily endpoint with an interval of 10 answers with exactly
  one bucket: it starts at minute \<open>10 * k\<close> of that hour, and each of its five category
  fields and its total is the sum of that column over the records (a missing value
  counting 0); the total is the sum of the stored totals.
\<close>

theorem daily_single_window_one_bucket:
  assumes dates: "daily_dates parse utcnow sd ed = Inr (s, e)"
    and table: "tables db VehicleCount_tablename = Some rows"
    and nonempty: "rows \<noteq> []"
    and window: "\<forall>r\<in>set rows.
        camera_id r = cam \<and> year (timestamp r) = y \<and> month (timestamp r) = mo \<and>
        day (timestamp r) = d \<and> hour (timestamp r) = h \<and>
        10 * k \<le> minute (timestamp r) \<and> minute (timestamp r) < 10 * k + 10"
    and range: "\<forall>r\<in>set rows. dt_key s \<le> dt_key (timestamp r) \<and> dt_key (timestamp r) \<le> dt_key e"
    and camera: "provided c = None \<or> provided c = Some cam"
  shows "get_daily_data parse utcnow db 10 sd ed c =
     Inr [\<lparr>VehicleCountResponse.timestamp =
            \<lparr>year = y, month = mo, day = d, hour = h, minute = 10 * k, second = 0,
             microsecond = 0\<rparr>,
           VehicleCountResponse.camera_id = cam,
           VehicleCountResponse.car = sum_list (map (\<lambda>r. coalesce (car r) 0) rows),
           VehicleCountResponse.bike = sum_list (map (\<lambda>r. coalesce (bike r) 0) rows),
           VehicleCountResponse.truck = sum_list (map (\<lambda>r. coalesce (truck r) 0) rows),
           VehicleCountResponse.bus = sum_list (map (\<lambda>r. coalesce (bus r) 0) rows),
           VehicleCountResponse.auto = sum_list (map (\<lambda>r. coalesce (auto r) 0) rows),
           VehicleCountResponse.total' = sum_list (map (\<lambda>r. coalesce (total' r) 0) rows)\<rparr>]"
proof -
  let ?b = "\<lparr>year = y, month = mo, day = d, hour = h, minute = 10 * k, second = 0,
             microsecond = 0\<rparr>"
  have clause: "camera_clause c r" if "r \<in> set rows" for r
    using camera window that by (auto simp: camera_clause_def)
  have kept: "filter (\<lambda>r. dt_key s \<le> dt_key (timestamp r) \<and> dt_key (timestamp r) \<le> dt_key e \<and>
                  camera_clause c r) rows = rows"
    using range clause by simp
  have key: "\<forall>r\<in>set rows. (time_bucket 10 (timestamp r), camera_id r) = (?b, cam)"
    using window by (simp add: time_bucket_window [where k = k])
  have groups: "group_by (\<lambda>r. (time_bucket 10 (timestamp r), camera_id r)) rows = [((?b, cam), rows)]"
    using nonempty key by (rule group_by_single_key)
  have q: "daily_query db 10 s e c = Inr [response_of ((?b, cam), rows)]"
    by (simp add: daily_query_def from_table_def table kept groups order_by_def)
  have "validate_interval 10 = 10"
    by (simp add: validate_interval_def)
  then have "get_daily_data parse utcnow db 10 sd ed c = Inr [response_of ((?b, cam), rows)]"
    by (simp add: get_daily_data_def daily_body_def dates q)
  then show ?thesis
    by (simp only: response_of_sums)
qed

lemma example_window_table:
  "tables example_window_db VehicleCount_tablename =
     Some [example_row 1 10 12 ''cam1'' 3, example_row 2 10 19 ''cam1'' 4,
           example_row 3 10 10 ''cam1'' 5]"
  by (simp add: example_window_db_def)

theorem daily_single_window_one_bucket_witness:
  "get_daily_data fromisoformat example_now example_window_db 10 (Some ''2024-03-01'') None None =
     Inr [\<lparr>VehicleCountResponse.timestamp =
            \<lparr>year = 2024, month = 3, day = 1, hour = 10, minute = 10, second = 0, microsecond = 0\<rparr>,
           camera_id = ''cam1'', car = 12, bike = 3, truck = 0, bus = 0, auto = 0, total' = 15\<rparr>]"
proof -
  let ?rows = "[example_row 1 10 12 ''cam1'' 3, example_row 2 10 19 ''cam1'' 4,
                example_row 3 10 10 ''cam1'' 5]"
  have nonempty: "?rows \<noteq> []"
    by simp
  have window: "\<forall>r\<in>set ?rows.
        camera_id r = ''cam1'' \<and> year (timestamp r) = 2024 \<and> month (timestamp r) = 3 \<and>
        day (timestamp r) = 1 \<and> hour (timestamp r) = 10 \<and>
        10 * 1 \<le> minute (timestamp r) \<and> minute (timestamp r) < 10 * 1 + 10"
    by (simp add: example_row_def)
  have range: "\<forall>r\<in>set ?rows.
        dt_key \<lparr>year = 2024, month = 3, day = 1, hour = 0, minute = 0, second = 0,
                microsecond = 0\<rparr> \<le> dt_key (timestamp r) \<and>
        dt_key (timestamp r) \<le>
          dt_key \<lparr>year = 2024, month = 3, day = 1, hour = 23, minute = 59, second = 59,
                  microsecond = 999999\<rparr>"
    by (simp add: example_row_def dt_key_def)
  have camera: "provided None = None \<or> provided None = Some ''cam1''"
    by simp
  from daily_single_window_one_bucket [OF daily_dates_example example_window_table nonempty window range camera]
  show ?thesis
    by (simp add: example_row_def coalesce_def)
qed

subsection \<open>The interval of the daily endpoint\<close>

lemma time_bucket_minute_mod:
  assumes "1 \<le> i"
  shows "int (minute (time_bucket i t)) mod i = 0"
proof -
  have "0 \<le> int (minute t) div i"
    using assms by (simp add: pos_imp_zdiv_nonneg_iff)
  then have "0 \<le> int (minute t) div i * i"
    using assms by simp
  then show ?thesis
    by (simp add: time_bucket_def date_trunc_hour_def)
qed

lemma daily_query_example_15:
  "daily_query example_db 15
     \<lparr>year = 2024, month = 3, day = 1, hour = 0, minute = 0, second = 0, microsecond = 0\<rparr>
     \<lparr>year = 2024, month = 3, day = 1, hour = 23, minute = 59, second = 59, microsecond = 999999\<rparr>
     None =
   Inr [\<lparr>VehicleCountResponse.timestamp =
          \<lparr>year = 2024, month = 3, day = 1, hour = 10, minute = 15, second = 0, microsecond = 0\<rparr>,
         camera_id = ''cam1'', car = 3, bike = 1, truck = 0, bus = 0, auto = 0, total' = 4\<rparr>,
        \<lparr>VehicleCountResponse.timestamp =
          \<lparr>year = 2024, month = 3, day = 1, hour = 12, minute = 0, second = 0, microsecond = 0\<rparr>,
         camera_id = ''cam1'', car = 4, bike = 1, truck = 0, bus = 0, auto = 0, total' = 5\<rparr>]"
  by (simp add: daily_query_def from_table_def example_db_def example_row_def camera_clause_def
      dt_key_def time_bucket_def date_trunc_hour_def group_by_def order_by_def response_of_def
      coalesce_def sql_sum_def)

lemma get_daily_data_example_15:
  "get_daily_data fromisoformat example_now example_db 15 (Some ''2024-03-01'') None None =
   Inr [\<lparr>VehicleCountResponse.timestamp =
          \<lparr>year = 2024, month = 3, day = 1, hour = 10, minute = 15, second = 0, microsecond = 0\<rparr>,
         camera_id = ''cam1'', car = 3, bike = 1, truck = 0, bus = 0, auto = 0, total' = 4\<rparr>,
        \<lparr>VehicleCountResponse.timestamp =
          \<lparr>year = 2024, month = 3, day = 1, hour = 12, minute = 0, second = 0, microsecond = 0\<rparr>,
         camera_id = ''cam1'', car = 4, bike = 1, truck = 0, bus = 0, auto = 0, total' = 5\<rparr>]"
  using daily_query_example_15
  by (simp add: get_daily_data_def daily_body_def daily_dates_example validate_interval_def)

text \<open>
  C4. An \<^verbatim>\<open>interval_minutes\<close> below 1 or above 60 makes the daily endpoint answer exactly
  as it does for 10, whatever the other parameters are, so it does not fail the request.
  An interval from 1 to 60 is kept as given and is the width of the buckets: every bucket
  of the answer starts at a minute that is a multiple of it.
\<close>

theorem daily_interval_out_of_range_is_ten:
  "(i < 1 \<or> 60 < i \<longrightarrow>
      get_daily_data parse utcnow db i sd ed c = get_daily_data parse utcnow db 10 sd ed c) \<and>
   (1 \<le> i \<and> i \<le> 60 \<longrightarrow>
      validate_interval i = i \<and>
      (\<forall>bs. get_daily_data parse utcnow db i sd ed c = Inr bs \<longrightarrow>
         (\<forall>b\<in>set bs. int (minute (VehicleCountResponse.timestamp b)) mod i = 0)))"
proof (intro conjI impI allI ballI)
  assume "i < 1 \<or> 60 < i"
  then have h: "validate_interval i = validate_interval 10"
    by (auto simp: validate_interval_def)
  show "get_daily_data parse utcnow db i sd ed c = get_daily_data parse utcnow db 10 sd ed c"
    unfolding get_daily_data_def daily_body_def h by (rule refl)
next
  assume "1 \<le> i \<and> i \<le> 60"
  then show "validate_interval i = i"
    by (simp add: validate_interval_def)
next
  fix bs b
  assume i: "1 \<le> i \<and> i \<le> 60"
    and bs: "get_daily_data parse utcnow db i sd ed c = Inr bs"
    and b: "b \<in> set bs"
  from i have v: "validate_interval i = i"
    by (simp add: validate_interval_def)
  from bs obtain s e where q: "daily_query db i s e c = Inr bs"
    by (auto simp: get_daily_data_def daily_body_def v split: sum.splits exn.splits)
  from daily_query_buckets [OF q b] obtain r :: VehicleCount where
    "VehicleCountResponse.timestamp b = time_bucket i (timestamp r)"
    by blast
  then show "int (minute (VehicleCountResponse.timestamp b)) mod i = 0"
    using i by (simp add: time_bucket_minute_mod)
qed

theorem daily_interval_out_of_range_is_ten_witness:
  "get_daily_data fromisoformat example_now example_db 0 (Some ''2024-03-01'') None None =
     get_daily_data fromisoformat example_now example_db 10 (Some ''2024-03-01'') None None \<and>
   get_daily_data fromisoformat example_now example_db 61 (Some ''2024-03-01'') None None =
     get_daily_data fromisoformat example_now example_db 10 (Some ''2024-03-01'') None None \<and>
   get_daily_data fromisoformat example_now example_db (- 5) (Some ''2024-03-01'') None None =
     get_daily_data fromisoformat example_now example_db 10 (Some ''2024-03-01'') None None \<and>
   validate_interval 15 = 15 \<and>
   list_all (\<lambda>b. int (minute (VehicleCountResponse.timestamp b)) mod 15 = 0)
     [\<lparr>VehicleCountResponse.timestamp =
          \<lparr>year = 2024, month = 3, day = 1, hour = 10, minute = 15, second = 0, microsecond = 0\<rparr>,
         camera_id = ''cam1'', car = 3, bike = 1, truck = 0, bus = 0, auto = 0, total' = 4\<rparr>,
        \<lparr>VehicleCountResponse.timestamp =
          \<lparr>year = 2024, month = 3, day = 1, hour = 12, minute = 0, second = 0, microsecond = 0\<rparr>,
         camera_id = ''cam1'', car = 4, bike = 1, truck = 0, bus = 0, auto = 0, total' = 5\<rparr>]"
  using daily_interval_out_of_range_is_ten [of 0 fromisoformat example_now example_db
      "Some ''2024-03-01''" None None]
    daily_interval_out_of_range_is_ten [of 61 fromisoformat example_now example_db
      "Some ''2024-03-01''" None None]
    daily_interval_out_of_range_is_ten [of "- 5" fromisoformat example_now example_db
      "Some ''2024-03-01''" None None]
    daily_interval_out_of_range_is_ten [of 15 fromisoformat example_now example_db
      "Some ''2024-03-01''" None None]
    get_daily_data_example_15
  by (simp add: list_all_iff)

end
